theory Spec2Isabelle
  imports Main "HOL-Library.AList"
begin

section \<open>JavaScript values\<close>

text \<open>
  The values that flow through ExpiredStorage: what callers pass as value and expiration,
  what the backing store holds and what the operations return. \<open>Num\<close> carries the
  integer-valued numbers (timestamps are whole epoch seconds, \<open>Math.floor\<close> in
  \<open>getTimestamp\<close>); they are taken as mathematical integers. \<open>Frac m k\<close> is the
  finite number \<open>m / 10^k\<close>, which is how the numbers that are not whole are written
  (-99.5 is \<open>Frac (-995) 1\<close>; every double is such a decimal fraction).
  \<open>PosInfinity\<close> and \<open>NegInfinity\<close> are the two infinities and \<open>NaN\<close> is
  the number NaN. Sums are exact: the rounding of doubles is outside the model.
  \<open>Arr\<close> and \<open>Obj\<close> are plain arrays and plain objects.
\<close>

datatype jsval =
    Undefined
  | Null
  | Bool bool
  | Num int
  | Frac int nat
  | PosInfinity
  | NegInfinity
  | NaN
  | Str string
  | Arr "jsval list"
  | Obj "(string \<times> jsval) list"

text \<open>Truthiness, as tested by \<open>if (expiration)\<close>.\<close>

fun truthy :: "jsval \<Rightarrow> bool" where
  "truthy Undefined = False"
| "truthy Null = False"
| "truthy (Bool b) = b"
| "truthy (Num n) = (n \<noteq> 0)"
| "truthy (Frac m k) = (m \<noteq> 0)"
| "truthy PosInfinity = True"
| "truthy NegInfinity = True"
| "truthy NaN = False"
| "truthy (Str s) = (s \<noteq> [])"
| "truthy (Arr xs) = True"
| "truthy (Obj ps) = True"

subsection \<open>Number to string\<close>

definition digit_char :: "nat \<Rightarrow> char" where
  "digit_char d = ''0123456789'' ! d"

function show_nat :: "nat \<Rightarrow> string" where
  "show_nat n = (if n < 10 then [digit_char n] else show_nat (n div 10) @ [digit_char (n mod 10)])"
  by pat_completeness auto
termination
  by (relation "measure id") auto

declare show_nat.simps [simp del]

definition show_int :: "int \<Rightarrow> string" where
  "show_int i = (if i < 0 then CHR ''-'' # show_nat (nat (- i)) else show_nat (nat i))"

text \<open>
  The decimal fraction \<open>m / 10^k\<close> without the zeros at the end of its fractional
  part; no fractional digit left, \<open>k = 0\<close>, means that the number is whole.
\<close>

fun strip_zeros :: "int \<Rightarrow> nat \<Rightarrow> int \<times> nat" where
  "strip_zeros m 0 = (m, 0)"
| "strip_zeros m (Suc k) = (if m mod 10 = 0 then strip_zeros (m div 10) k else (m, Suc k))"

text \<open>
  Number to string for a finite number that is not whole, \<open>m / 10^k\<close> with \<open>k\<close>
  fractional digits, the last of them not 0. With \<open>n\<close> the position of the decimal
  point among the digits of \<open>|m|\<close>: for \<open>0 < n \<le> 21\<close> the first \<open>n\<close> digits,
  a point and the other digits; for \<open>-6 < n \<le> 0\<close> the text \<open>0.\<close>, \<open>-n\<close> zeros
  and the digits; otherwise the exponent form, first digit, point and other digits if
  any, \<open>e\<close>, the sign of \<open>n - 1\<close> and \<open>|n - 1|\<close>. A negative number is a minus
  sign and the string of its absolute value.
\<close>

definition show_frac :: "int \<Rightarrow> nat \<Rightarrow> string" where
  "show_frac m k =
     (let digits = show_nat (nat \<bar>m\<bar>);
          n = int (length digits) - int k;
          e = n - 1
      in (if m < 0 then ''-'' else []) @
         (if 0 < n \<and> n \<le> 21 then take (nat n) digits @ ''.'' @ drop (nat n) digits
          else if - 6 < n \<and> n \<le> 0 then ''0.'' @ replicate (nat (- n)) CHR ''0'' @ digits
          else (if length digits = 1 then digits else take 1 digits @ ''.'' @ drop 1 digits)
               @ ''e'' @ (if e < 0 then ''-'' else ''+'') @ show_nat (nat \<bar>e\<bar>)))"

text \<open>
  ToString. A whole number is written with all its digits (the exponent form of whole
  numbers of 22 digits and more is outside the model). An array joins the strings of its elements with commas, \<open>undefined\<close> and
  \<open>null\<close> elements giving the empty string; a plain object gives
  \<open>[object Object]\<close>.
\<close>

fun to_string :: "jsval \<Rightarrow> string"
  and join_elems :: "jsval list \<Rightarrow> string"
  and elem_string :: "jsval \<Rightarrow> string" where
  "to_string Undefined = ''undefined''"
| "to_string Null = ''null''"
| "to_string (Bool b) = (if b then ''true'' else ''false'')"
| "to_string (Num n) = show_int n"
| "to_string (Frac m k) =
     (if snd (strip_zeros m k) = 0 then show_int (fst (strip_zeros m k))
      else show_frac (fst (strip_zeros m k)) (snd (strip_zeros m k)))"
| "to_string PosInfinity = ''Infinity''"
| "to_string NegInfinity = ''-Infinity''"
| "to_string NaN = ''NaN''"
| "to_string (Str s) = s"
| "to_string (Arr xs) = join_elems xs"
| "to_string (Obj ps) = ''[object Object]''"
| "join_elems [] = []"
| "join_elems [x] = elem_string x"
| "join_elems (x # y # ys) = elem_string x @ '','' @ join_elems (y # ys)"
| "elem_string x = (if x = Undefined \<or> x = Null then [] else to_string x)"

subsection \<open>parseInt\<close>

text \<open>
  \<open>parseInt(string)\<close> with no radix: ToString of the argument, leading white space
  dropped, an optional sign, an optional \<open>0x\<close>/\<open>0X\<close> prefix selecting radix 16
  (radix 10 otherwise), then the longest run of digits of that radix; no digit at all is
  NaN, here \<open>None\<close>. Whatever follows the digits is ignored. Strings are
  sequences of 8-bit characters, so the white space is the ASCII one (tab, line feed,
  vertical tab, form feed, carriage return, space).
\<close>

definition is_white_space :: "char \<Rightarrow> bool" where
  "is_white_space c = (c \<in> set [CHR 0x09, CHR 0x0A, CHR 0x0B, CHR 0x0C, CHR 0x0D, CHR 0x20])"

definition digit_val :: "char \<Rightarrow> nat option" where
  "digit_val c =
     (let n = (of_char c :: nat) in
      if 48 \<le> n \<and> n \<le> 57 then Some (n - 48)
      else if 97 \<le> n \<and> n \<le> 102 then Some (n - 87)
      else if 65 \<le> n \<and> n \<le> 70 then Some (n - 55)
      else None)"

definition is_radix_digit :: "nat \<Rightarrow> char \<Rightarrow> bool" where
  "is_radix_digit R c = (case digit_val c of None \<Rightarrow> False | Some d \<Rightarrow> d < R)"

definition digits_value :: "nat \<Rightarrow> string \<Rightarrow> nat" where
  "digits_value R Z = foldl (\<lambda>acc c. acc * R + (case digit_val c of None \<Rightarrow> 0 | Some d \<Rightarrow> d)) 0 Z"

definition parseInt_string :: "string \<Rightarrow> int option" where
  "parseInt_string inputString =
     (let S = dropWhile is_white_space inputString;
          sign = (if take 1 S = ''-'' then - 1 else (1 :: int));
          S1 = (if take 1 S = ''+'' \<or> take 1 S = ''-'' then drop 1 S else S);
          stripPrefix = (take 2 S1 = ''0x'' \<or> take 2 S1 = ''0X'');
          R = (if stripPrefix then 16 else 10);
          S2 = (if stripPrefix then drop 2 S1 else S1);
          Z = takeWhile (is_radix_digit R) S2
      in if Z = [] then None else Some (sign * int (digits_value R Z)))"

definition parseInt :: "jsval \<Rightarrow> int option" where
  "parseInt v = parseInt_string (to_string v)"

subsection \<open>Addition with a number on the left\<close>

text \<open>
  \<open>this.getTimestamp() + expiration\<close>: the left operand is a number. A string, array
  or object on the right makes it a string concatenation; otherwise the right operand is
  converted to a number (\<open>undefined\<close> to NaN, \<open>null\<close> to 0, \<open>true\<close> to 1).
  A whole number \<open>t\<close> plus \<open>m / 10^k\<close> is \<open>(t * 10^k + m) / 10^k\<close>.
\<close>

fun js_plus :: "int \<Rightarrow> jsval \<Rightarrow> jsval" where
  "js_plus t Undefined = NaN"
| "js_plus t Null = Num t"
| "js_plus t (Bool b) = Num (t + (if b then 1 else 0))"
| "js_plus t (Num n) = Num (t + n)"
| "js_plus t (Frac m k) = Frac (t * 10 ^ k + m) k"
| "js_plus t PosInfinity = PosInfinity"
| "js_plus t NegInfinity = NegInfinity"
| "js_plus t NaN = NaN"
| "js_plus t (Str s) = Str (show_int t @ s)"
| "js_plus t (Arr xs) = Str (show_int t @ to_string (Arr xs))"
| "js_plus t (Obj ps) = Str (show_int t @ to_string (Obj ps))"

section \<open>The backing store\<close>

text \<open>
  The backing store is the \<open>testStorage\<close> object of the test suite: a dictionary
  \<open>_storage\<close> with \<open>getItem\<close>, \<open>setItem\<close>, \<open>removeItem\<close>, \<open>clear\<close> and
  \<open>keys\<close>. The dictionary is an association list in insertion order, which is the
  order \<open>for (key in this._storage)\<close> enumerates keys that are not array indices;
  a dictionary holds each key once (\<open>distinct (map fst st)\<close>). Values are stored as
  given, with no conversion to strings. Keys that name members of \<open>Object.prototype\<close>
  are outside the model.
\<close>

type_synonym storage = "(string \<times> jsval) list"

text \<open>
  \<open>var ret = this._storage[key]; if (ret === undefined) return null; return ret;\<close>
\<close>

definition storage_getItem :: "storage \<Rightarrow> string \<Rightarrow> jsval" where
  "storage_getItem st key =
     (case map_of st key of
        None \<Rightarrow> Null
      | Some ret \<Rightarrow> if ret = Undefined then Null else ret)"

text \<open>\<open>this._storage[key] = val;\<close> with no return statement: the call yields \<open>undefined\<close>.\<close>

definition storage_setItem :: "storage \<Rightarrow> string \<Rightarrow> jsval \<Rightarrow> jsval \<times> storage" where
  "storage_setItem st key val = (Undefined, AList.update key val st)"

text \<open>\<open>delete this._storage[key];\<close>\<close>

definition storage_removeItem :: "storage \<Rightarrow> string \<Rightarrow> jsval \<times> storage" where
  "storage_removeItem st key = (Undefined, AList.delete key st)"

definition storage_clear :: "storage \<Rightarrow> storage" where
  "storage_clear st = []"

definition storage_keys :: "storage \<Rightarrow> string list" where
  "storage_keys st = map fst st"

section \<open>ExpiredStorage\<close>

text \<open>
  Every operation takes the backing store and, where it calls \<open>getTimestamp()\<close>, the
  value \<open>now\<close> that \<open>getTimestamp()\<close> returns during the call (the test suite
  replaces \<open>getTimestamp\<close> by a function returning a controlled constant). An operation
  that may write returns its result paired with the store after the call.
\<close>

definition expiration_key_prefix :: string where
  "expiration_key_prefix = ''__expired_storage_ts__''"

text \<open>\<open>storageKey.indexOf(prefix) === 0\<close>\<close>

definition indexOf_is_0 :: "string \<Rightarrow> string \<Rightarrow> bool" where
  "indexOf_is_0 storageKey p = (take (length p) storageKey = p)"

text \<open>\<open>storageKey.substr(n)\<close>\<close>

definition substr :: "string \<Rightarrow> nat \<Rightarrow> string" where
  "substr storageKey n = drop n storageKey"

definition updateExpiration :: "storage \<Rightarrow> int \<Rightarrow> string \<Rightarrow> jsval \<Rightarrow> jsval \<times> storage" where
  "updateExpiration st now key expiration =
     storage_setItem st (expiration_key_prefix @ key) (js_plus now expiration)"

definition setItem :: "storage \<Rightarrow> int \<Rightarrow> string \<Rightarrow> jsval \<Rightarrow> jsval \<Rightarrow> jsval \<times> storage" where
  "setItem st now key val expiration =
     (let (ret, st1) = storage_setItem st key val;
          st2 = (if truthy expiration then snd (updateExpiration st1 now key expiration) else st1)
      in (ret, st2))"

text \<open>The result \<open>null\<close> of \<open>getTimeLeft\<close> is \<open>None\<close>.\<close>

definition getTimeLeft :: "storage \<Rightarrow> int \<Rightarrow> string \<Rightarrow> int option" where
  "getTimeLeft st now key =
     (case parseInt (storage_getItem st (expiration_key_prefix @ key)) of
        None \<Rightarrow> None
      | Some expireTime \<Rightarrow> if expireTime \<noteq> 0 then Some (expireTime - now) else None)"

definition isExpired :: "storage \<Rightarrow> int \<Rightarrow> string \<Rightarrow> bool" where
  "isExpired st now key =
     (let timeLeft = getTimeLeft st now key
      in timeLeft \<noteq> None \<and> the timeLeft \<le> 0)"

definition removeItem :: "storage \<Rightarrow> string \<Rightarrow> jsval \<times> storage" where
  "removeItem st key =
     (let (ret, st1) = storage_removeItem st key;
          (ret2, st2) = storage_removeItem st1 (expiration_key_prefix @ key)
      in (ret, st2))"

definition getItem :: "storage \<Rightarrow> int \<Rightarrow> string \<Rightarrow> jsval \<times> storage" where
  "getItem st now key =
     (if isExpired st now key then (Null, snd (removeItem st key))
      else (storage_getItem st key, st))"

record peek_result =
  peek_value :: jsval
  peek_timeLeft :: "int option"
  peek_isExpired :: bool

definition peek :: "storage \<Rightarrow> int \<Rightarrow> string \<Rightarrow> peek_result \<times> storage" where
  "peek st now key =
     (let v = storage_getItem st key;
          tl = getTimeLeft st now key
      in (\<lparr>peek_value = v, peek_timeLeft = tl,
           peek_isExpired = (tl \<noteq> None \<and> the tl \<le> 0)\<rparr>, st))"

text \<open>
  \<open>_iterKeys\<close>: \<open>testStorage\<close> defines \<open>keys()\<close>, so the first branch is the one
  taken. The array of keys is read once, before the first call of the callback, and the
  callback is then applied to each key in turn; what the callback reads and changes (the
  store, the list \<open>ret\<close>) is threaded through as \<open>acc\<close>.
\<close>

definition iterKeys :: "storage \<Rightarrow> (string \<Rightarrow> 'a \<Rightarrow> 'a) \<Rightarrow> 'a \<Rightarrow> 'a" where
  "iterKeys st callback acc = fold callback (storage_keys st) acc"

definition keys_callback :: "int \<Rightarrow> bool \<Rightarrow> string \<Rightarrow> storage \<times> string list \<Rightarrow> storage \<times> string list" where
  "keys_callback now includeExpired storageKey acc =
     (case acc of (s, ret) \<Rightarrow>
        if \<not> indexOf_is_0 storageKey expiration_key_prefix then
          (if includeExpired \<or> \<not> isExpired s now storageKey then (s, ret @ [storageKey])
           else (s, ret))
        else (s, ret))"

definition keys :: "storage \<Rightarrow> int \<Rightarrow> bool \<Rightarrow> string list \<times> storage" where
  "keys st now includeExpired =
     (case iterKeys st (keys_callback now includeExpired) (st, []) of
        (st', ret) \<Rightarrow> (ret, st'))"

definition clearExpired_callback :: "int \<Rightarrow> string \<Rightarrow> storage \<times> string list \<Rightarrow> storage \<times> string list" where
  "clearExpired_callback now storageKey acc =
     (case acc of (s, ret) \<Rightarrow>
        if indexOf_is_0 storageKey expiration_key_prefix then
          (let itemKey = substr storageKey (length expiration_key_prefix)
           in if isExpired s now itemKey then (snd (removeItem s itemKey), ret @ [itemKey])
              else (s, ret))
        else (s, ret))"

definition clearExpired :: "storage \<Rightarrow> int \<Rightarrow> string list \<times> storage" where
  "clearExpired st now =
     (case iterKeys st (clearExpired_callback now) (st, []) of
        (st', ret) \<Rightarrow> (ret, st'))"

definition clear :: "storage \<Rightarrow> storage" where
  "clear st = storage_clear st"

subsection \<open>The JSON layer\<close>

text \<open>
  \<open>JSON.stringify\<close> and \<open>JSON.parse\<close> belong to the platform, not to this library;
  \<open>setJson\<close> and \<open>getJson\<close> take them as the parameters \<open>JSON_stringify\<close> and
  \<open>JSON_parse\<close>. A \<open>throw\<close> is the left summand of the result.
\<close>

datatype error = Error string | SyntaxError

definition setJson ::
  "(jsval \<Rightarrow> jsval) \<Rightarrow> storage \<Rightarrow> int \<Rightarrow> string \<Rightarrow> jsval \<Rightarrow> jsval \<Rightarrow> (error + jsval) \<times> storage" where
  "setJson JSON_stringify st now key val expiration =
     (if val = Undefined then (Inl (Error ''Cannot set undefined value as JSON!''), st)
      else (case setItem st now key (JSON_stringify val) expiration of
              (ret, st') \<Rightarrow> (Inr ret, st')))"

definition getJson ::
  "(jsval \<Rightarrow> error + jsval) \<Rightarrow> storage \<Rightarrow> int \<Rightarrow> string \<Rightarrow> (error + jsval) \<times> storage" where
  "getJson JSON_parse st now key =
     (case getItem st now key of
        (val, st') \<Rightarrow> if val = Null then (Inr Null, st') else (JSON_parse val, st'))"

subsection \<open>Stores used as examples\<close>

text \<open>The store of the test suite after \<open>setItem("test", "foo", 10)\<close> at time 0.\<close>

abbreviation (input) store_test_foo_10 :: storage where
  "store_test_foo_10 \<equiv> snd (setItem [] 0 ''test'' (Str ''foo'') (Num 10))"

text \<open>An empty store after \<open>setItem("k", "v", -5)\<close> at time 5: the expiry record is 0.\<close>

abbreviation (input) store_zero_record :: storage where
  "store_zero_record \<equiv> snd (setItem [] 5 ''k'' (Str ''v'') (Num (- 5)))"

text \<open>
  An empty store after \<open>setItem("k", "v", -99.5)\<close> at time 100: the expiry record is
  0.5.
\<close>

abbreviation (input) store_fraction_record :: storage where
  "store_fraction_record \<equiv> snd (setItem [] 100 ''k'' (Str ''v'') (Frac (- 995) 1))"

text \<open>
  The store of the sweep test: from an empty store, at time 0, \<open>a\<close> is set with
  expiration 10, \<open>b\<close> with 15, \<open>c\<close> with 25 and \<open>d\<close> with none.
\<close>

abbreviation (input) store_abcd :: "jsval \<Rightarrow> jsval \<Rightarrow> jsval \<Rightarrow> jsval \<Rightarrow> storage" where
  "store_abcd va vb vc vd \<equiv>
     snd (setItem (snd (setItem (snd (setItem (snd (setItem [] 0 ''a'' va (Num 10)))
       0 ''b'' vb (Num 15))) 0 ''c'' vc (Num 25))) 0 ''d'' vd Undefined)"

abbreviation (input) store_abcd_1234 :: storage where
  "store_abcd_1234 \<equiv> store_abcd (Str ''1'') (Str ''2'') (Str ''3'') (Str ''4'')"

text \<open>
  A store in which an expiry record has been given an expiry record of its own: at time 0,
  \<open>updateExpiration("__expired_storage_ts__x", 5)\<close> and then \<open>setItem("x", "v", 5)\<close>.
\<close>

abbreviation (input) store_collision :: storage where
  "store_collision \<equiv>
     snd (setItem (snd (updateExpiration [] 0 (expiration_key_prefix @ ''x'') (Num 5)))
            0 ''x'' (Str ''v'') (Num 5))"

text \<open>
  Instances of the JSON parameters, right on \<open>null\<close> and on whole numbers: there
  \<open>JSON.stringify\<close> gives the text that ToString gives, and \<open>JSON.parse\<close> of a decimal
  numeral gives the number \<open>parseInt\<close> reads.
\<close>

abbreviation (input) example_stringify :: "jsval \<Rightarrow> jsval" where
  "example_stringify \<equiv> \<lambda>v. Str (to_string v)"

abbreviation (input) example_parse :: "jsval \<Rightarrow> error + jsval" where
  "example_parse \<equiv> \<lambda>x. if x = Str ''null'' then Inr Null
     else (case parseInt x of None \<Rightarrow> Inl SyntaxError | Some n \<Rightarrow> Inr (Num n))"

section \<open>Decimal strings parse back\<close>

lemma digit_char_cases:
  assumes "d < 10"
  shows "digit_char d \<in> set ''0123456789'' \<and> digit_val (digit_char d) = Some d"
proof -
  from assms have "d \<in> {0,1,2,3,4,5,6,7,8,9}" by auto
  then show ?thesis
    by (auto simp: digit_char_def digit_val_def)
qed

lemma show_nat_nonempty: "show_nat n \<noteq> []"
  by (subst show_nat.simps) simp

lemma show_nat_chars: "set (show_nat n) \<subseteq> set ''0123456789''"
proof (induction n rule: show_nat.induct)
  case (1 n)
  show ?case
  proof (cases "n < 10")
    case True
    then show ?thesis
      using digit_char_cases [of n] by (subst show_nat.simps) simp
  next
    case False
    then have "set (show_nat (n div 10)) \<subseteq> set ''0123456789''"
      using "1.IH" by simp
    moreover have "digit_char (n mod 10) \<in> set ''0123456789''"
      using digit_char_cases [of "n mod 10"] by simp
    ultimately show ?thesis
      using False by (subst show_nat.simps) simp
  qed
qed

lemma dec_char_props:
  assumes "c \<in> set ''0123456789''"
  shows "is_radix_digit 10 c" "\<not> is_white_space c" "c \<noteq> CHR ''-''" "c \<noteq> CHR ''+''"
    "c \<noteq> CHR ''x''" "c \<noteq> CHR ''X''"
  using assms by (auto simp: is_radix_digit_def digit_val_def is_white_space_def)

lemma digits_value_snoc:
  "digits_value R (Z @ [c]) =
     digits_value R Z * R + (case digit_val c of None \<Rightarrow> 0 | Some d \<Rightarrow> d)"
  by (simp add: digits_value_def)

lemma digits_value_show_nat: "digits_value 10 (show_nat n) = n"
proof (induction n rule: show_nat.induct)
  case (1 n)
  show ?case
  proof (cases "n < 10")
    case True
    then show ?thesis
      using digit_char_cases [of n] by (subst show_nat.simps) (simp add: digits_value_def)
  next
    case False
    then have "digits_value 10 (show_nat (n div 10)) = n div 10"
      using "1.IH" by simp
    moreover have "digit_val (digit_char (n mod 10)) = Some (n mod 10)"
      using digit_char_cases [of "n mod 10"] by simp
    ultimately show ?thesis
      using False by (subst show_nat.simps) (simp add: digits_value_snoc)
  qed
qed

lemma parseInt_string_digits:
  assumes ne: "ds \<noteq> []" and dec: "set ds \<subseteq> set ''0123456789''"
  shows "parseInt_string ds = Some (int (digits_value 10 ds))"
    and "parseInt_string (CHR ''-'' # ds) = Some (- int (digits_value 10 ds))"
proof -
  obtain c cs where ds: "ds = c # cs" using ne by (cases ds) auto
  have c: "c \<in> set ''0123456789''" using dec ds by simp
  have all: "\<And>x. x \<in> set ds \<Longrightarrow> is_radix_digit 10 x"
    using dec dec_char_props(1) by blast
  have tw: "takeWhile (is_radix_digit 10) ds = ds"
    using all by (simp add: takeWhile_eq_all_conv)
  have nopre: "take 2 ds \<noteq> ''0x''" "take 2 ds \<noteq> ''0X''"
  proof -
    { fix p assume "take 2 ds = [CHR ''0'', p]"
      then have "p \<in> set ds" by (metis in_set_takeD list.set_intros(1,2))
      then have "p \<in> set ''0123456789''" using dec by blast }
    then show "take 2 ds \<noteq> ''0x''" "take 2 ds \<noteq> ''0X''"
      using dec_char_props(5,6) by blast+
  qed
  have dw: "dropWhile is_white_space ds = ds"
    using dec_char_props(2) [OF c] ds by simp
  have sg: "take 1 ds \<noteq> ''-''" "take 1 ds \<noteq> ''+''"
    using dec_char_props(3,4) [OF c] ds by simp_all
  show "parseInt_string ds = Some (int (digits_value 10 ds))"
    using dw sg nopre ne by (simp add: parseInt_string_def Let_def tw)
  have dw': "dropWhile is_white_space (CHR ''-'' # ds) = CHR ''-'' # ds"
    by (simp add: is_white_space_def)
  show "parseInt_string (CHR ''-'' # ds) = Some (- int (digits_value 10 ds))"
    unfolding parseInt_string_def dw' using nopre ne by (simp add: Let_def tw)
qed

lemma parseInt_Num: "parseInt (Num n) = Some n"
proof (cases "n < 0")
  case True
  then show ?thesis
    using parseInt_string_digits(2) [OF show_nat_nonempty show_nat_chars, of "nat (- n)"]
    by (simp add: parseInt_def show_int_def digits_value_show_nat)
next
  case False
  then show ?thesis
    using parseInt_string_digits(1) [OF show_nat_nonempty show_nat_chars, of "nat n"]
    by (simp add: parseInt_def show_int_def digits_value_show_nat)
qed

lemma parseInt_Null: "parseInt Null = None"
  by (simp add: parseInt_def parseInt_string_def is_white_space_def is_radix_digit_def
      digit_val_def)

section \<open>Reading and writing the dictionary\<close>

lemma prefix_nonempty: "expiration_key_prefix \<noteq> []"
  by (simp add: expiration_key_prefix_def)

lemma prefix_key_neq: "expiration_key_prefix @ key \<noteq> key" "key \<noteq> expiration_key_prefix @ key"
  by (simp_all add: prefix_nonempty)

lemma storage_getItem_absent: "map_of st key = None \<Longrightarrow> storage_getItem st key = Null"
  by (simp add: storage_getItem_def)

lemma map_of_removeItem:
  "map_of (snd (removeItem st key)) k =
     (if k = key \<or> k = expiration_key_prefix @ key then None else map_of st k)"
  by (simp add: removeItem_def storage_removeItem_def AList.delete_conv')

lemma getTimeLeft_absent:
  "map_of st (expiration_key_prefix @ key) = None \<Longrightarrow> getTimeLeft st now key = None"
  by (simp add: getTimeLeft_def storage_getItem_absent parseInt_Null)

lemma getTimeLeft_Num:
  "map_of st (expiration_key_prefix @ key) = Some (Num e) \<Longrightarrow>
     getTimeLeft st now key = (if e \<noteq> 0 then Some (e - now) else None)"
  by (simp add: getTimeLeft_def storage_getItem_def parseInt_Num)

lemma isExpired_iff:
  "isExpired st now key \<longleftrightarrow> (\<exists>t. getTimeLeft st now key = Some t \<and> t \<le> 0)"
  by (cases "getTimeLeft st now key") (simp_all add: isExpired_def)

lemma map_of_setItem:
  "map_of (snd (setItem st now key val expiration)) k =
     (if truthy expiration \<and> k = expiration_key_prefix @ key then Some (js_plus now expiration)
      else if k = key then Some val
      else map_of st k)"
  by (simp add: setItem_def storage_setItem_def updateExpiration_def AList.update_conv'
      prefix_key_neq)

lemma absent_key_iff: "key \<notin> set (storage_keys st) \<longleftrightarrow> map_of st key = None"
  by (simp add: storage_keys_def map_of_eq_None_iff)

lemma storage_getItem_after_setItem:
  "storage_getItem (snd (setItem st now key val expiration)) key
     = (if val = Undefined then Null else val)"
  by (simp add: storage_getItem_def map_of_setItem prefix_nonempty)

lemma js_plus_not_Undefined: "js_plus t e \<noteq> Undefined"
  by (cases e) simp_all

lemma parseInt_NegInfinity: "parseInt NegInfinity = None"
  by (simp add: parseInt_def parseInt_string_def is_white_space_def is_radix_digit_def
      digit_val_def)

text \<open>
  After \<open>setItem\<close> with a truthy expiration the item is expired exactly when
  \<open>parseInt\<close> reads the record written as a number that is not 0 and not after the
  time of the question.
\<close>

lemma isExpired_after_setItem:
  assumes "truthy expiration"
  shows "isExpired (snd (setItem st now key val expiration)) later key \<longleftrightarrow>
     (\<exists>e. parseInt (js_plus now expiration) = Some e \<and> e \<noteq> 0 \<and> e \<le> later)"
proof -
  have "storage_getItem (snd (setItem st now key val expiration)) (expiration_key_prefix @ key)
      = js_plus now expiration"
    using assms by (simp add: storage_getItem_def map_of_setItem js_plus_not_Undefined)
  then show ?thesis
    by (cases "parseInt (js_plus now expiration)") (auto simp: isExpired_iff getTimeLeft_def)
qed

section \<open>getItem\<close>

text \<open>
  C1. For a key that is expired at call time, \<open>getItem\<close> returns \<open>null\<close> and afterwards
  neither the value entry nor the expiry record of the key is in the backing store. For a
  key that is not expired, \<open>getItem\<close> returns what the backing store's own \<open>getItem\<close>
  returns (\<open>null\<close> when the key was never set) and the store is the same as before.
\<close>

theorem getItem_expired_or_raw:
  "(isExpired st now key \<longrightarrow>
      fst (getItem st now key) = Null
    \<and> map_of (snd (getItem st now key)) key = None
    \<and> map_of (snd (getItem st now key)) (expiration_key_prefix @ key) = None
    \<and> key \<notin> set (storage_keys (snd (getItem st now key)))
    \<and> expiration_key_prefix @ key \<notin> set (storage_keys (snd (getItem st now key))))
 \<and> (\<not> isExpired st now key \<longrightarrow>
      getItem st now key = (storage_getItem st key, st)
    \<and> (key \<notin> set (storage_keys st) \<longrightarrow> fst (getItem st now key) = Null))"
  by (simp add: getItem_def map_of_removeItem absent_key_iff storage_getItem_absent)

theorem getItem_expired_or_raw_witness:
  "isExpired store_test_foo_10 15 ''test''
   \<and> getItem store_test_foo_10 15 ''test'' = (Null, [])
   \<and> \<not> isExpired store_test_foo_10 5 ''test''
   \<and> getItem store_test_foo_10 5 ''test'' = (Str ''foo'', store_test_foo_10)
   \<and> ''other'' \<notin> set (storage_keys store_test_foo_10)
   \<and> fst (getItem store_test_foo_10 5 ''other'') = Null"
  using getItem_expired_or_raw [of store_test_foo_10 15 "''test''"]
    getItem_expired_or_raw [of store_test_foo_10 5 "''test''"]
    getItem_expired_or_raw [of store_test_foo_10 5 "''other''"]
  by (simp add: isExpired_iff getTimeLeft_Num getTimeLeft_absent storage_getItem_def
      storage_keys_def getItem_def removeItem_def storage_removeItem_def setItem_def
      storage_setItem_def updateExpiration_def expiration_key_prefix_def)

section \<open>getTimeLeft and isExpired\<close>

text \<open>
  C2, as claimed: \<open>getTimeLeft\<close> returns \<open>null\<close> exactly when the expiry record is
  absent or does not parse as a number. This fails for an expiry record that parses to 0:
  after \<open>setItem("k", "v", -5)\<close> at time 5 the record is 0, which parses, and
  \<open>getTimeLeft("k")\<close> is \<open>null\<close>, because of the test \<open>expireTime && ...\<close>.
\<close>

theorem getTimeLeft_zero_record_counterexample:
  "\<not> (getTimeLeft store_zero_record 5 ''k'' = None \<longleftrightarrow>
        (map_of store_zero_record (expiration_key_prefix @ ''k'') = None
         \<or> parseInt (storage_getItem store_zero_record (expiration_key_prefix @ ''k'')) = None))"
  by (simp add: map_of_setItem getTimeLeft_Num storage_getItem_def parseInt_Num)

text \<open>
  C2, amended. \<open>getTimeLeft\<close> returns \<open>null\<close> exactly when the expiry record is
  absent, or \<open>parseInt\<close> of its content is NaN, or \<open>parseInt\<close> of its content is 0;
  otherwise it returns the parsed expiry instant minus \<open>getTimestamp()\<close>, which may be
  negative. After \<open>setItem(K, v, t)\<close> with a positive whole number \<open>t\<close> at time \<open>T\<close>,
  where \<open>T + t\<close> is not 0, \<open>getTimeLeft(K)\<close> is 0 at time \<open>T + t\<close> and -5 at time
  \<open>T + t + 5\<close>.
\<close>

theorem getTimeLeft_null_or_difference:
  "(getTimeLeft st now key = None \<longleftrightarrow>
      (map_of st (expiration_key_prefix @ key) = None
       \<or> parseInt (storage_getItem st (expiration_key_prefix @ key)) = None
       \<or> parseInt (storage_getItem st (expiration_key_prefix @ key)) = Some 0))
 \<and> (parseInt (storage_getItem st (expiration_key_prefix @ key)) = Some e \<and> e \<noteq> 0 \<longrightarrow>
      getTimeLeft st now key = Some (e - now))
 \<and> (0 < t \<and> T + t \<noteq> 0 \<longrightarrow>
      getTimeLeft (snd (setItem st' T K v (Num t))) (T + t) K = Some 0
    \<and> getTimeLeft (snd (setItem st' T K v (Num t))) (T + t + 5) K = Some (- 5))"
proof (intro conjI)
  show "getTimeLeft st now key = None \<longleftrightarrow>
      (map_of st (expiration_key_prefix @ key) = None
       \<or> parseInt (storage_getItem st (expiration_key_prefix @ key)) = None
       \<or> parseInt (storage_getItem st (expiration_key_prefix @ key)) = Some 0)"
  proof (cases "map_of st (expiration_key_prefix @ key)")
    case None
    then show ?thesis by (simp add: getTimeLeft_absent)
  next
    case (Some r)
    then show ?thesis by (simp add: getTimeLeft_def split: option.splits)
  qed
  show "parseInt (storage_getItem st (expiration_key_prefix @ key)) = Some e \<and> e \<noteq> 0 \<longrightarrow>
      getTimeLeft st now key = Some (e - now)"
    by (simp add: getTimeLeft_def)
  show "0 < t \<and> T + t \<noteq> 0 \<longrightarrow>
      getTimeLeft (snd (setItem st' T K v (Num t))) (T + t) K = Some 0
    \<and> getTimeLeft (snd (setItem st' T K v (Num t))) (T + t + 5) K = Some (- 5)"
    by (simp add: getTimeLeft_Num map_of_setItem)
qed

theorem getTimeLeft_null_or_difference_witness:
  "(0::int) < 10 \<and> (0::int) + 10 \<noteq> 0
   \<and> parseInt (storage_getItem store_test_foo_10 (expiration_key_prefix @ ''test'')) = Some 10
   \<and> getTimeLeft store_test_foo_10 3 ''test'' = Some 7
   \<and> getTimeLeft store_test_foo_10 10 ''test'' = Some 0
   \<and> getTimeLeft store_test_foo_10 15 ''test'' = Some (- 5)
   \<and> getTimeLeft store_test_foo_10 15 ''other'' = None"
  using getTimeLeft_null_or_difference [where st = store_test_foo_10 and now = 3
      and key = "''test''" and e = 10 and t = 10 and T = 0 and st' = "[]" and K = "''test''"
      and v = "Str ''foo''"]
    getTimeLeft_null_or_difference [where st = store_test_foo_10 and now = 15
      and key = "''other''" and e = 10 and t = 10 and T = 0 and st' = "[]" and K = "''test''"
      and v = "Str ''foo''"]
  by (simp add: map_of_setItem storage_getItem_def parseInt_Num expiration_key_prefix_def)

text \<open>
  C6. For a key with no expiry record in the backing store, at every timestamp,
  \<open>getTimeLeft\<close> returns \<open>null\<close> and \<open>isExpired\<close> returns false; and for every key
  \<open>isExpired\<close> is true exactly when \<open>getTimeLeft\<close> is a number that is at most 0.
\<close>

theorem no_expiry_record_never_expires:
  "(expiration_key_prefix @ key \<notin> set (storage_keys st) \<longrightarrow>
      getTimeLeft st now key = None \<and> \<not> isExpired st now key)
 \<and> (isExpired st now key \<longleftrightarrow> (\<exists>t. getTimeLeft st now key = Some t \<and> t \<le> 0))"
proof -
  have "getTimeLeft st now key = None \<and> \<not> isExpired st now key"
    if "expiration_key_prefix @ key \<notin> set (storage_keys st)"
  proof -
    from that have "map_of st (expiration_key_prefix @ key) = None"
      by (simp add: absent_key_iff)
    then show ?thesis
      by (simp add: getTimeLeft_absent isExpired_iff)
  qed
  then show ?thesis
    using isExpired_iff by blast
qed

theorem no_expiry_record_never_expires_witness:
  "expiration_key_prefix @ ''__noex''
     \<notin> set (storage_keys (snd (setItem [] 0 ''__noex'' (Str ''bar'') Undefined)))
   \<and> getTimeLeft (snd (setItem [] 0 ''__noex'' (Str ''bar'') Undefined)) 1000000 ''__noex'' = None
   \<and> \<not> isExpired (snd (setItem [] 0 ''__noex'' (Str ''bar'') Undefined)) 1000000 ''__noex''
   \<and> isExpired store_test_foo_10 10 ''test''
   \<and> getTimeLeft store_test_foo_10 10 ''test'' = Some 0"
  using no_expiry_record_never_expires
      [of "''__noex''" "snd (setItem [] 0 ''__noex'' (Str ''bar'') Undefined)" 1000000]
    no_expiry_record_never_expires [of "''test''" store_test_foo_10 10]
  by (simp add: setItem_def storage_setItem_def updateExpiration_def expiration_key_prefix_def
      getTimeLeft_Num storage_keys_def)

section \<open>peek\<close>

text \<open>
  C3. For every key, expired or not, \<open>peek\<close> leaves the backing store as it was and
  returns the value read from the backing store without eviction, the result of
  \<open>getTimeLeft\<close>, and a flag that is true exactly when that result is a number at most
  0. So a second \<open>peek\<close> right after the first returns the same, and a read of the backing
  store after both still returns what it returned before.
\<close>

theorem peek_reads_only:
  "snd (peek st now key) = st
 \<and> fst (peek st now key) =
     \<lparr>peek_value = storage_getItem st key,
      peek_timeLeft = getTimeLeft st now key,
      peek_isExpired = (\<exists>t. getTimeLeft st now key = Some t \<and> t \<le> 0)\<rparr>
 \<and> peek (snd (peek st now key)) now key = peek st now key
 \<and> storage_getItem (snd (peek (snd (peek st now key)) now key)) key = storage_getItem st key"
  by (cases "getTimeLeft st now key") (simp_all add: peek_def Let_def)

theorem peek_reads_only_witness:
  "isExpired store_test_foo_10 15 ''test''
   \<and> peek store_test_foo_10 15 ''test'' =
       (\<lparr>peek_value = Str ''foo'', peek_timeLeft = Some (- 5), peek_isExpired = True\<rparr>,
        store_test_foo_10)
   \<and> peek (snd (peek store_test_foo_10 15 ''test'')) 15 ''test'' = peek store_test_foo_10 15 ''test''
   \<and> storage_getItem (snd (peek (snd (peek store_test_foo_10 15 ''test'')) 15 ''test'')) ''test''
       = Str ''foo''"
  using peek_reads_only [of store_test_foo_10 15 "''test''"]
  by (simp add: isExpired_iff getTimeLeft_Num map_of_setItem storage_getItem_def
      expiration_key_prefix_def prod_eq_iff)

section \<open>setItem\<close>

text \<open>
  C5. With an expiration that is omitted (\<open>undefined\<close>), zero or otherwise falsy,
  \<open>setItem\<close> does exactly what the backing store's \<open>setItem\<close> does: the value is
  written, and the expiry record of the key, hence the time left at any later instant, is
  what it was. With a positive number \<open>t\<close> it also writes \<open>getTimestamp() + t\<close> to the
  expiry record, over whatever was there; so it does with every truthy expiration, a
  positive number that is not whole included. Either way the result is the result of the
  backing store's \<open>setItem\<close>.
\<close>

theorem setItem_expiry_written_iff_truthy:
  "(\<not> truthy expiration \<longrightarrow>
      setItem st now key val expiration = storage_setItem st key val
    \<and> map_of (snd (setItem st now key val expiration)) key = Some val
    \<and> map_of (snd (setItem st now key val expiration)) (expiration_key_prefix @ key)
        = map_of st (expiration_key_prefix @ key)
    \<and> getTimeLeft (snd (setItem st now key val expiration)) later key = getTimeLeft st later key)
 \<and> (0 < t \<longrightarrow>
      fst (setItem st now key val (Num t)) = fst (storage_setItem st key val)
    \<and> snd (setItem st now key val (Num t))
        = snd (storage_setItem (snd (storage_setItem st key val))
                 (expiration_key_prefix @ key) (Num (now + t)))
    \<and> map_of (snd (setItem st now key val (Num t))) key = Some val
    \<and> map_of (snd (setItem st now key val (Num t))) (expiration_key_prefix @ key)
        = Some (Num (now + t)))
 \<and> (truthy expiration \<longrightarrow>
      fst (setItem st now key val expiration) = fst (storage_setItem st key val)
    \<and> snd (setItem st now key val expiration)
        = snd (storage_setItem (snd (storage_setItem st key val))
                 (expiration_key_prefix @ key) (js_plus now expiration))
    \<and> map_of (snd (setItem st now key val expiration)) key = Some val
    \<and> map_of (snd (setItem st now key val expiration)) (expiration_key_prefix @ key)
        = Some (js_plus now expiration))"
proof (intro conjI impI)
  assume f: "\<not> truthy expiration"
  then show "setItem st now key val expiration = storage_setItem st key val"
    by (simp add: setItem_def storage_setItem_def)
  from f show "map_of (snd (setItem st now key val expiration)) key = Some val"
    by (simp add: map_of_setItem prefix_nonempty)
  from f show r: "map_of (snd (setItem st now key val expiration)) (expiration_key_prefix @ key)
        = map_of st (expiration_key_prefix @ key)"
    by (simp add: map_of_setItem prefix_nonempty)
  then show "getTimeLeft (snd (setItem st now key val expiration)) later key
        = getTimeLeft st later key"
    by (simp add: getTimeLeft_def storage_getItem_def)
next
  assume t: "0 < t"
  show "fst (setItem st now key val (Num t)) = fst (storage_setItem st key val)"
    by (simp add: setItem_def storage_setItem_def)
  from t show "snd (setItem st now key val (Num t))
        = snd (storage_setItem (snd (storage_setItem st key val))
                 (expiration_key_prefix @ key) (Num (now + t)))"
    by (simp add: setItem_def storage_setItem_def updateExpiration_def)
  from t show "map_of (snd (setItem st now key val (Num t))) key = Some val"
    by (simp add: map_of_setItem prefix_nonempty)
  from t show "map_of (snd (setItem st now key val (Num t))) (expiration_key_prefix @ key)
        = Some (Num (now + t))"
    by (simp add: map_of_setItem)
next
  assume e: "truthy expiration"
  show "fst (setItem st now key val expiration) = fst (storage_setItem st key val)"
    by (simp add: setItem_def storage_setItem_def)
  from e show "snd (setItem st now key val expiration)
        = snd (storage_setItem (snd (storage_setItem st key val))
                 (expiration_key_prefix @ key) (js_plus now expiration))"
    by (simp add: setItem_def storage_setItem_def updateExpiration_def)
  from e show "map_of (snd (setItem st now key val expiration)) key = Some val"
    by (simp add: map_of_setItem prefix_nonempty)
  from e show "map_of (snd (setItem st now key val expiration)) (expiration_key_prefix @ key)
        = Some (js_plus now expiration)"
    by (simp add: map_of_setItem)
qed

theorem setItem_expiry_written_iff_truthy_witness:
  "\<not> truthy Undefined \<and> \<not> truthy (Num 0) \<and> (0::int) < 60
   \<and> setItem store_test_foo_10 4 ''test'' (Str ''bar'') Undefined
       = (Undefined, [(''test'', Str ''bar''), (''__expired_storage_ts__test'', Num 10)])
   \<and> setItem store_test_foo_10 4 ''test'' (Str ''bar'') (Num 0)
       = (Undefined, [(''test'', Str ''bar''), (''__expired_storage_ts__test'', Num 10)])
   \<and> getTimeLeft (snd (setItem store_test_foo_10 4 ''test'' (Str ''bar'') Undefined)) 4 ''test''
       = Some 6
   \<and> setItem store_test_foo_10 4 ''test'' (Str ''bar'') (Num 60)
       = (Undefined, [(''test'', Str ''bar''), (''__expired_storage_ts__test'', Num 64)])
   \<and> truthy (Frac 15 1)
   \<and> setItem store_test_foo_10 4 ''test'' (Str ''bar'') (Frac 15 1)
       = (Undefined, [(''test'', Str ''bar''), (''__expired_storage_ts__test'', Frac 55 1)])"
  using setItem_expiry_written_iff_truthy [where st = store_test_foo_10 and now = 4
      and key = "''test''" and val = "Str ''bar''" and expiration = Undefined and t = 60
      and later = 4]
    setItem_expiry_written_iff_truthy [where st = store_test_foo_10 and now = 4
      and key = "''test''" and val = "Str ''bar''" and expiration = "Num 0" and t = 60
      and later = 4]
    setItem_expiry_written_iff_truthy [where st = store_test_foo_10 and now = 4
      and key = "''test''" and val = "Str ''bar''" and expiration = "Frac 15 1" and t = 60
      and later = 4]
  by (simp add: setItem_def storage_setItem_def updateExpiration_def expiration_key_prefix_def
      getTimeLeft_Num prod_eq_iff)

text \<open>
  C10, as claimed: with every strictly negative number \<open>t\<close> such that
  \<open>getTimestamp() + t\<close> is not 0, \<open>isExpired\<close> is true and \<open>getItem\<close> returns
  \<open>null\<close> right after \<open>setItem\<close>. This fails for -99.5 at time 100: the record
  written is 0.5, not 0, but \<open>parseInt\<close> reads the string \<open>0.5\<close> as 0, which the test
  \<open>expireTime && ...\<close> takes for no expiry, so the item is not expired and \<open>getItem\<close>
  returns the value. It fails for \<open>-Infinity\<close> too: the record is \<open>-Infinity\<close>,
  which \<open>parseInt\<close> reads as NaN.
\<close>

theorem setItem_negative_fraction_counterexample:
  "to_string (Frac (- 995) 1) = ''-99.5''
   \<and> truthy (Frac (- 995) 1)
   \<and> map_of store_fraction_record (expiration_key_prefix @ ''k'') = Some (Frac 5 1)
   \<and> to_string (Frac 5 1) = ''0.5''
   \<and> getTimeLeft store_fraction_record 100 ''k'' = None
   \<and> \<not> isExpired store_fraction_record 100 ''k''
   \<and> fst (getItem store_fraction_record 100 ''k'') = Str ''v''
   \<and> truthy NegInfinity
   \<and> \<not> isExpired (snd (setItem [] 100 ''k'' (Str ''v'') NegInfinity)) 100 ''k''"
proof -
  have s1: "to_string (Frac (- 995) 1) = ''-99.5''" by code_simp
  have s2: "to_string (Frac 5 1) = ''0.5''" by code_simp
  have p: "parseInt_string ''0.5'' = Some 0" by code_simp
  have r: "map_of store_fraction_record (expiration_key_prefix @ ''k'') = Some (Frac 5 1)"
    by (simp add: map_of_setItem)
  have g: "storage_getItem store_fraction_record (expiration_key_prefix @ ''k'') = Frac 5 1"
    by (simp only: storage_getItem_def r) simp
  have tl: "getTimeLeft store_fraction_record 100 ''k'' = None"
    by (simp only: getTimeLeft_def g parseInt_def s2 p) simp
  have ne: "\<not> isExpired store_fraction_record 100 ''k''"
    by (simp only: isExpired_iff tl) simp
  have v: "fst (getItem store_fraction_record 100 ''k'') = Str ''v''"
    using ne by (simp add: getItem_def storage_getItem_after_setItem)
  have inf: "\<not> isExpired (snd (setItem [] 100 ''k'' (Str ''v'') NegInfinity)) 100 ''k''"
    using isExpired_after_setItem [of NegInfinity "[]" 100 "''k''" "Str ''v''" 100]
    by (simp add: parseInt_NegInfinity)
  show ?thesis
    using s1 s2 r tl ne v inf by simp
qed

text \<open>
  C10, amended. With a strictly negative whole number \<open>t\<close> such that
  \<open>getTimestamp() + t\<close> is not 0, \<open>setItem\<close> returns as usual and writes
  \<open>getTimestamp() + t\<close>, an instant already past, to the expiry record; right afterwards
  the time left is \<open>t\<close>, \<open>isExpired\<close> is true and \<open>getItem\<close> returns \<open>null\<close>.
  With a strictly negative number that is not whole, \<open>setItem\<close> returns as usual and
  writes \<open>getTimestamp() + t\<close> as well, but right afterwards \<open>isExpired\<close> is true,
  and then \<open>getItem\<close> returns \<open>null\<close>, exactly when \<open>parseInt\<close> reads the
  record as a number that is not 0 and not above \<open>getTimestamp()\<close>. With
  \<open>-Infinity\<close> the record is \<open>-Infinity\<close> and the item is not expired.
\<close>

theorem setItem_negative_ttl_expired_at_once:
  "(t < 0 \<and> now + t \<noteq> 0 \<longrightarrow>
     fst (setItem st now key val (Num t)) = fst (storage_setItem st key val)
   \<and> map_of (snd (setItem st now key val (Num t))) (expiration_key_prefix @ key)
       = Some (Num (now + t))
   \<and> now + t < now
   \<and> getTimeLeft (snd (setItem st now key val (Num t))) now key = Some t
   \<and> isExpired (snd (setItem st now key val (Num t))) now key
   \<and> fst (getItem (snd (setItem st now key val (Num t))) now key) = Null)
 \<and> (m < 0 \<longrightarrow>
     fst (setItem st now key val (Frac m k)) = fst (storage_setItem st key val)
   \<and> map_of (snd (setItem st now key val (Frac m k))) (expiration_key_prefix @ key)
       = Some (Frac (now * 10 ^ k + m) k)
   \<and> (isExpired (snd (setItem st now key val (Frac m k))) now key \<longleftrightarrow>
        (\<exists>e. parseInt (Frac (now * 10 ^ k + m) k) = Some e \<and> e \<noteq> 0 \<and> e \<le> now))
   \<and> (isExpired (snd (setItem st now key val (Frac m k))) now key \<longrightarrow>
        fst (getItem (snd (setItem st now key val (Frac m k))) now key) = Null))
 \<and> fst (setItem st now key val NegInfinity) = fst (storage_setItem st key val)
 \<and> map_of (snd (setItem st now key val NegInfinity)) (expiration_key_prefix @ key)
     = Some NegInfinity
 \<and> \<not> isExpired (snd (setItem st now key val NegInfinity)) now key"
proof (intro conjI impI)
  assume h: "t < 0 \<and> now + t \<noteq> 0"
  let ?st = "snd (setItem st now key val (Num t))"
  have rec: "map_of ?st (expiration_key_prefix @ key) = Some (Num (now + t))"
    using h by (simp add: map_of_setItem)
  have tl: "getTimeLeft ?st now key = Some t"
    using h by (simp add: getTimeLeft_Num [OF rec])
  have ex: "isExpired ?st now key"
    using h tl by (simp add: isExpired_iff)
  show "fst (setItem st now key val (Num t)) = fst (storage_setItem st key val)"
    by (simp add: setItem_def storage_setItem_def)
  show "map_of ?st (expiration_key_prefix @ key) = Some (Num (now + t))"
    by (rule rec)
  show "now + t < now" using h by simp
  show "getTimeLeft ?st now key = Some t" by (rule tl)
  show "isExpired ?st now key" by (rule ex)
  show "fst (getItem ?st now key) = Null"
    using ex by (simp add: getItem_def)
next
  assume m: "m < 0"
  then have tr: "truthy (Frac m k)" by simp
  show "fst (setItem st now key val (Frac m k)) = fst (storage_setItem st key val)"
    by (simp add: setItem_def storage_setItem_def)
  show "map_of (snd (setItem st now key val (Frac m k))) (expiration_key_prefix @ key)
       = Some (Frac (now * 10 ^ k + m) k)"
    using m by (simp add: map_of_setItem)
  show "isExpired (snd (setItem st now key val (Frac m k))) now key \<longleftrightarrow>
        (\<exists>e. parseInt (Frac (now * 10 ^ k + m) k) = Some e \<and> e \<noteq> 0 \<and> e \<le> now)"
    using isExpired_after_setItem [OF tr, of st now key val now] by simp
  assume "isExpired (snd (setItem st now key val (Frac m k))) now key"
  then show "fst (getItem (snd (setItem st now key val (Frac m k))) now key) = Null"
    by (simp add: getItem_def)
next
  show "fst (setItem st now key val NegInfinity) = fst (storage_setItem st key val)"
    by (simp add: setItem_def storage_setItem_def)
  show "map_of (snd (setItem st now key val NegInfinity)) (expiration_key_prefix @ key)
     = Some NegInfinity"
    by (simp add: map_of_setItem)
  show "\<not> isExpired (snd (setItem st now key val NegInfinity)) now key"
    using isExpired_after_setItem [of NegInfinity st now key val now]
    by (simp add: parseInt_NegInfinity)
qed

theorem setItem_negative_ttl_expired_at_once_witness:
  "(- 30 :: int) < 0 \<and> (100 :: int) + (- 30) \<noteq> 0
   \<and> snd (setItem [] 100 ''old'' (Str ''x'') (Num (- 30)))
        = [(''old'', Str ''x''), (''__expired_storage_ts__old'', Num 70)]
   \<and> isExpired (snd (setItem [] 100 ''old'' (Str ''x'') (Num (- 30)))) 100 ''old''
   \<and> getItem (snd (setItem [] 100 ''old'' (Str ''x'') (Num (- 30)))) 100 ''old'' = (Null, [])
   \<and> (- 505 :: int) < 0
   \<and> to_string (Frac (- 505) 1) = ''-50.5''
   \<and> map_of (snd (setItem [] 100 ''old'' (Str ''x'') (Frac (- 505) 1)))
        (expiration_key_prefix @ ''old'') = Some (Frac 495 1)
   \<and> parseInt (Frac 495 1) = Some 49
   \<and> isExpired (snd (setItem [] 100 ''old'' (Str ''x'') (Frac (- 505) 1))) 100 ''old''
   \<and> fst (getItem (snd (setItem [] 100 ''old'' (Str ''x'') (Frac (- 505) 1))) 100 ''old'') = Null"
proof -
  note w = setItem_negative_ttl_expired_at_once [of "- 30" 100 "[]" "''old''" "Str ''x''" "- 505" 1]
  have s: "to_string (Frac (- 505) 1) = ''-50.5''" by code_simp
  have s': "to_string (Frac 495 1) = ''49.5''" by code_simp
  have p': "parseInt_string ''49.5'' = Some 49" by code_simp
  have p: "parseInt (Frac 495 1) = Some 49"
    by (simp only: parseInt_def s' p')
  have whole: "snd (setItem [] 100 ''old'' (Str ''x'') (Num (- 30)))
        = [(''old'', Str ''x''), (''__expired_storage_ts__old'', Num 70)]"
    "isExpired (snd (setItem [] 100 ''old'' (Str ''x'') (Num (- 30)))) 100 ''old''"
    "getItem (snd (setItem [] 100 ''old'' (Str ''x'') (Num (- 30)))) 100 ''old'' = (Null, [])"
    using w
    by (simp_all add: setItem_def storage_setItem_def updateExpiration_def
        expiration_key_prefix_def getItem_def removeItem_def storage_removeItem_def)
  have rec: "map_of (snd (setItem [] 100 ''old'' (Str ''x'') (Frac (- 505) 1)))
        (expiration_key_prefix @ ''old'') = Some (Frac 495 1)"
    using w by simp
  have ex: "isExpired (snd (setItem [] 100 ''old'' (Str ''x'') (Frac (- 505) 1))) 100 ''old''"
    using w p by simp
  have gone: "fst (getItem (snd (setItem [] 100 ''old'' (Str ''x'') (Frac (- 505) 1))) 100 ''old'')
      = Null"
    using w ex by simp
  show ?thesis
    using whole s rec p ex gone by simp
qed

section \<open>Enumeration: keys and clearExpired\<close>

lemma indexOf_is_0_prefix: "indexOf_is_0 (expiration_key_prefix @ x) expiration_key_prefix"
  by (simp add: indexOf_is_0_def)

lemma substr_prefix: "substr (expiration_key_prefix @ x) (length expiration_key_prefix) = x"
  by (simp add: substr_def)

lemma prefix_substr:
  "indexOf_is_0 sk expiration_key_prefix \<Longrightarrow>
     expiration_key_prefix @ substr sk (length expiration_key_prefix) = sk"
  unfolding indexOf_is_0_def substr_def
  by (metis append_take_drop_id)

lemma isExpired_Num:
  "map_of st (expiration_key_prefix @ key) = Some (Num e) \<Longrightarrow>
     isExpired st now key \<longleftrightarrow> e \<noteq> 0 \<and> e \<le> now"
  by (auto simp: isExpired_iff getTimeLeft_Num)

lemma isExpired_absent:
  "map_of st (expiration_key_prefix @ key) = None \<Longrightarrow> \<not> isExpired st now key"
  by (simp add: isExpired_iff getTimeLeft_absent)

lemma isExpired_cong:
  "map_of s (expiration_key_prefix @ k) = map_of s' (expiration_key_prefix @ k) \<Longrightarrow>
     isExpired s now k = isExpired s' now k"
  by (simp add: isExpired_def getTimeLeft_def storage_getItem_def)

lemma store_abcd_eq:
  "store_abcd va vb vc vd =
     [(''a'', va), (''__expired_storage_ts__a'', Num 10),
      (''b'', vb), (''__expired_storage_ts__b'', Num 15),
      (''c'', vc), (''__expired_storage_ts__c'', Num 25),
      (''d'', vd)]"
  by (simp add: setItem_def storage_setItem_def updateExpiration_def expiration_key_prefix_def)

lemma store_collision_eq:
  "store_collision =
     [(''__expired_storage_ts____expired_storage_ts__x'', Num 5),
      (''x'', Str ''v''),
      (''__expired_storage_ts__x'', Num 5)]"
  by (simp add: setItem_def storage_setItem_def updateExpiration_def expiration_key_prefix_def)

subsection \<open>keys\<close>

text \<open>The callback of \<open>keys\<close> never changes the store; it appends the keys it keeps.\<close>

lemma fold_keys_callback:
  "fold (keys_callback now inc) ks (s, acc) =
     (s, acc @ filter (\<lambda>k. \<not> indexOf_is_0 k expiration_key_prefix
                          \<and> (inc \<or> \<not> isExpired s now k)) ks)"
  by (induction ks arbitrary: acc) (auto simp: keys_callback_def)

lemma keys_eq:
  "keys st now inc =
     (filter (\<lambda>k. \<not> indexOf_is_0 k expiration_key_prefix \<and> (inc \<or> \<not> isExpired st now k))
        (storage_keys st), st)"
  by (simp add: keys_def iterKeys_def fold_keys_callback)

text \<open>
  C7. For every backing store, \<open>keys(includeExpired)\<close> returns no key that begins with
  the expiry-record prefix; \<open>keys(true)\<close> returns all the other keys of the store, in
  enumeration order, and \<open>keys(false)\<close> returns those of them for which \<open>isExpired\<close> is
  false; the store after the call is the store before it, so the expired entries that were
  left out are still stored.
\<close>

theorem keys_lists_logical_keys:
  "snd (keys st now includeExpired) = st
 \<and> (\<forall>k \<in> set (fst (keys st now includeExpired)). \<not> indexOf_is_0 k expiration_key_prefix)
 \<and> expiration_key_prefix @ x \<notin> set (fst (keys st now includeExpired))
 \<and> fst (keys st now True)
     = filter (\<lambda>k. \<not> indexOf_is_0 k expiration_key_prefix) (storage_keys st)
 \<and> fst (keys st now False) = filter (\<lambda>k. \<not> isExpired st now k) (fst (keys st now True))"
  using indexOf_is_0_prefix [of x] by (auto simp: keys_eq)

theorem keys_lists_logical_keys_witness:
  "keys store_abcd_1234 19 False = ([''c'', ''d''], store_abcd_1234)
   \<and> keys store_abcd_1234 19 True = ([''a'', ''b'', ''c'', ''d''], store_abcd_1234)
   \<and> isExpired store_abcd_1234 19 ''a''
   \<and> isExpired store_abcd_1234 19 ''b''"
proof -
  have ex: "isExpired store_abcd_1234 19 ''a''" "isExpired store_abcd_1234 19 ''b''"
    "\<not> isExpired store_abcd_1234 19 ''c''" "\<not> isExpired store_abcd_1234 19 ''d''"
    by (simp_all add: isExpired_iff getTimeLeft_Num getTimeLeft_absent map_of_setItem
        expiration_key_prefix_def)
  have ks: "filter (\<lambda>k. \<not> indexOf_is_0 k expiration_key_prefix) (storage_keys store_abcd_1234)
      = [''a'', ''b'', ''c'', ''d'']"
    by (simp add: store_abcd_eq storage_keys_def indexOf_is_0_def expiration_key_prefix_def)
  show ?thesis
    using keys_lists_logical_keys [of store_abcd_1234 19 False "''a''"]
      keys_lists_logical_keys [of store_abcd_1234 19 True "''a''"]
    by (simp add: prod_eq_iff ks ex)
qed

subsection \<open>clearExpired\<close>

lemma removeItem_filter:
  "snd (removeItem s k) = filter (\<lambda>(x, v). x \<noteq> k \<and> x \<noteq> expiration_key_prefix @ k) s"
  by (auto simp: removeItem_def storage_removeItem_def AList.delete_eq intro: filter_cong)

lemma map_of_filter_keys:
  "map_of (filter (\<lambda>(x, v). Q x) s) k = (if Q k then map_of s k else None)"
  by (induction s) auto

text \<open>
  The loop of \<open>clearExpired\<close> over a list of distinct keys, none of which is the expiry
  record of an expiry record: removing one expired item does not change whether a later
  one is expired, so the loop removes exactly the items that were expired when it began.
\<close>

lemma fold_clearExpired_callback:
  assumes "distinct ks"
    and "\<forall>sk \<in> set ks. indexOf_is_0 sk expiration_key_prefix \<longrightarrow>
           \<not> indexOf_is_0 (substr sk (length expiration_key_prefix)) expiration_key_prefix"
  shows "fold (clearExpired_callback now) ks (s, acc) =
     (filter (\<lambda>(x, v).
          x \<notin> set (filter (isExpired s now) (map (\<lambda>sk. substr sk (length expiration_key_prefix))
                  (filter (\<lambda>sk. indexOf_is_0 sk expiration_key_prefix) ks)))
        \<and> x \<notin> (\<lambda>k. expiration_key_prefix @ k) `
            set (filter (isExpired s now) (map (\<lambda>sk. substr sk (length expiration_key_prefix))
                  (filter (\<lambda>sk. indexOf_is_0 sk expiration_key_prefix) ks)))) s,
      acc @ filter (isExpired s now) (map (\<lambda>sk. substr sk (length expiration_key_prefix))
                  (filter (\<lambda>sk. indexOf_is_0 sk expiration_key_prefix) ks)))"
  using assms
proof (induction ks arbitrary: s acc)
  case Nil
  then show ?case by simp
next
  case (Cons sk ks)
  let ?P = "\<lambda>sk. indexOf_is_0 sk expiration_key_prefix"
  let ?d = "\<lambda>sk. substr sk (length expiration_key_prefix)"
  let ?R = "\<lambda>s ks. filter (isExpired s now) (map ?d (filter ?P ks))"
  have dist: "distinct ks" and notin: "sk \<notin> set ks" using Cons.prems(1) by simp_all
  have ns: "\<forall>sk \<in> set ks. ?P sk \<longrightarrow> \<not> ?P (?d sk)" using Cons.prems(2) by simp
  note IH = Cons.IH [OF dist ns]
  show ?case
  proof (cases "?P sk \<and> isExpired s now (?d sk)")
    case False
    then have step: "clearExpired_callback now sk (s, acc) = (s, acc)"
      by (auto simp: clearExpired_callback_def Let_def)
    have R: "?R s (sk # ks) = ?R s ks" using False by auto
    show ?thesis
      unfolding fold_Cons comp_apply step IH R ..
  next
    case True
    define s1 where "s1 = snd (removeItem s (?d sk))"
    have sk_eq: "expiration_key_prefix @ ?d sk = sk"
      using True prefix_substr by blast
    have s1: "s1 = filter (\<lambda>(x, v). x \<noteq> ?d sk \<and> x \<noteq> sk) s"
      unfolding s1_def removeItem_filter sk_eq ..
    have step: "clearExpired_callback now sk (s, acc) = (s1, acc @ [?d sk])"
      using True by (simp add: clearExpired_callback_def Let_def s1_def)
    have nP: "\<not> ?P (?d sk)" using True Cons.prems(2) by simp
    have same: "isExpired s1 now (?d sk') = isExpired s now (?d sk')"
      if "sk' \<in> set ks" "?P sk'" for sk'
    proof -
      have e: "expiration_key_prefix @ ?d sk' = sk'" using that(2) prefix_substr by blast
      have "sk' \<noteq> sk" using that(1) notin by blast
      moreover have "sk' \<noteq> ?d sk" using that(2) nP by blast
      ultimately have "map_of s1 sk' = map_of s sk'"
        by (simp add: s1 map_of_filter_keys)
      then show ?thesis
        using isExpired_cong [of s1 "?d sk'" s now] e by simp
    qed
    have R1: "?R s1 ks = ?R s ks"
      by (rule filter_cong) (auto simp: same)
    have R: "?R s (sk # ks) = ?d sk # ?R s ks" using True by simp
    have st: "filter (\<lambda>(x, v). x \<notin> set (?R s ks)
                \<and> x \<notin> (\<lambda>k. expiration_key_prefix @ k) ` set (?R s ks)) s1
        = filter (\<lambda>(x, v). x \<notin> set (?d sk # ?R s ks)
            \<and> x \<notin> (\<lambda>k. expiration_key_prefix @ k) ` set (?d sk # ?R s ks)) s"
      unfolding s1 filter_filter using sk_eq by (auto intro!: filter_cong)
    show ?thesis
      unfolding fold_Cons comp_apply step IH R1 R st by simp
  qed
qed

text \<open>
  C4, as claimed: \<open>clearExpired\<close> removes the value and the expiry record of every
  logical key, derived from an enumerated expiry-record key, that is expired. This fails
  in a store where an expiry record has an expiry record of its own. In
  \<open>store_collision\<close> at time 10 the key \<open>x\<close> is derived from the enumerated key
  \<open>__expired_storage_ts__x\<close> and is expired, but the sweep first meets the record of
  that record, removes \<open>__expired_storage_ts__x\<close> as an expired item, and then finds
  \<open>x\<close> without an expiry record: the value of \<open>x\<close> stays and \<open>x\<close> is not returned.
\<close>

theorem clearExpired_collision_counterexample:
  "indexOf_is_0 (expiration_key_prefix @ ''x'') expiration_key_prefix
   \<and> expiration_key_prefix @ ''x'' \<in> set (storage_keys store_collision)
   \<and> substr (expiration_key_prefix @ ''x'') (length expiration_key_prefix) = ''x''
   \<and> isExpired store_collision 10 ''x''
   \<and> map_of (snd (clearExpired store_collision 10)) ''x'' = Some (Str ''v'')
   \<and> ''x'' \<notin> set (fst (clearExpired store_collision 10))"
proof -
  have ce: "clearExpired store_collision 10
      = ([expiration_key_prefix @ ''x''], [(''x'', Str ''v'')])"
    unfolding store_collision_eq
    by (simp add: clearExpired_def iterKeys_def storage_keys_def clearExpired_callback_def
        indexOf_is_0_def substr_def isExpired_Num isExpired_absent removeItem_def
        storage_removeItem_def expiration_key_prefix_def Let_def)
  have ex: "isExpired store_collision 10 ''x''"
    unfolding store_collision_eq by (simp add: isExpired_Num expiration_key_prefix_def)
  have k: "expiration_key_prefix @ ''x'' \<in> set (storage_keys store_collision)"
    unfolding store_collision_eq by (simp add: storage_keys_def expiration_key_prefix_def)
  show ?thesis
    unfolding ce using ex k
    by (simp add: indexOf_is_0_prefix substr_prefix prefix_nonempty)
qed

text \<open>
  C4, amended. In a store that lists each key once and in which no logical key derived
  from an expiry-record key itself begins with the expiry-record prefix,
  \<open>clearExpired\<close> enumerates the expiry-record keys, derives the logical key from each,
  returns the logical keys that are expired, in enumeration order, and leaves the store
  without the value and the expiry record of each of them, everything else kept. When
  \<open>a\<close> (expiration 10), \<open>b\<close> (15), \<open>c\<close> (25) and \<open>d\<close> (none) were set at time 0
  in an empty store and the time is 19, \<open>clearExpired\<close> returns the set of \<open>a\<close> and
  \<open>b\<close>, and \<open>keys(true)\<close> afterwards returns the set of \<open>c\<close> and \<open>d\<close>.
\<close>

theorem clearExpired_removes_expired:
  "(distinct (storage_keys st)
    \<and> (\<forall>sk \<in> set (storage_keys st). indexOf_is_0 sk expiration_key_prefix \<longrightarrow>
          \<not> indexOf_is_0 (substr sk (length expiration_key_prefix)) expiration_key_prefix) \<longrightarrow>
      fst (clearExpired st now)
        = filter (isExpired st now)
            (map (\<lambda>sk. substr sk (length expiration_key_prefix))
               (filter (\<lambda>sk. indexOf_is_0 sk expiration_key_prefix) (storage_keys st)))
    \<and> snd (clearExpired st now)
        = filter (\<lambda>(x, v). x \<notin> set (fst (clearExpired st now))
                        \<and> x \<notin> (\<lambda>k. expiration_key_prefix @ k) ` set (fst (clearExpired st now))) st
    \<and> (\<forall>k \<in> set (fst (clearExpired st now)).
          map_of (snd (clearExpired st now)) k = None
        \<and> map_of (snd (clearExpired st now)) (expiration_key_prefix @ k) = None))
 \<and> set (fst (clearExpired (store_abcd va vb vc vd) 19)) = {''a'', ''b''}
 \<and> set (fst (keys (snd (clearExpired (store_abcd va vb vc vd) 19)) 19 True)) = {''c'', ''d''}"
proof (intro conjI impI)
  assume h: "distinct (storage_keys st)
    \<and> (\<forall>sk \<in> set (storage_keys st). indexOf_is_0 sk expiration_key_prefix \<longrightarrow>
          \<not> indexOf_is_0 (substr sk (length expiration_key_prefix)) expiration_key_prefix)"
  let ?R = "filter (isExpired st now)
            (map (\<lambda>sk. substr sk (length expiration_key_prefix))
               (filter (\<lambda>sk. indexOf_is_0 sk expiration_key_prefix) (storage_keys st)))"
  have ce: "clearExpired st now =
      (?R, filter (\<lambda>(x, v). x \<notin> set ?R \<and> x \<notin> (\<lambda>k. expiration_key_prefix @ k) ` set ?R) st)"
    using fold_clearExpired_callback [of "storage_keys st" now st "[]"] h
    by (simp add: clearExpired_def iterKeys_def)
  show "fst (clearExpired st now) = ?R"
    by (simp add: ce)
  show "snd (clearExpired st now)
        = filter (\<lambda>(x, v). x \<notin> set (fst (clearExpired st now))
                        \<and> x \<notin> (\<lambda>k. expiration_key_prefix @ k) ` set (fst (clearExpired st now))) st"
    by (simp add: ce)
  show "\<forall>k \<in> set (fst (clearExpired st now)).
          map_of (snd (clearExpired st now)) k = None
        \<and> map_of (snd (clearExpired st now)) (expiration_key_prefix @ k) = None"
    unfolding ce fst_conv snd_conv by (simp add: map_of_filter_keys)
next
  have ce: "clearExpired (store_abcd va vb vc vd) 19
      = ([''a'', ''b''], [(''c'', vc), (''__expired_storage_ts__c'', Num 25), (''d'', vd)])"
    unfolding store_abcd_eq
    by (simp add: clearExpired_def iterKeys_def storage_keys_def clearExpired_callback_def
        indexOf_is_0_def substr_def isExpired_Num isExpired_absent removeItem_def
        storage_removeItem_def expiration_key_prefix_def Let_def)
  show "set (fst (clearExpired (store_abcd va vb vc vd) 19)) = {''a'', ''b''}"
    unfolding ce by simp
  show "set (fst (keys (snd (clearExpired (store_abcd va vb vc vd) 19)) 19 True)) = {''c'', ''d''}"
    unfolding ce by (simp add: keys_eq storage_keys_def indexOf_is_0_def expiration_key_prefix_def)
qed

theorem clearExpired_removes_expired_witness:
  "distinct (storage_keys store_abcd_1234)
   \<and> filter (\<lambda>sk. indexOf_is_0 sk expiration_key_prefix
          \<and> indexOf_is_0 (substr sk (length expiration_key_prefix)) expiration_key_prefix)
        (storage_keys store_abcd_1234) = []
   \<and> fst (clearExpired store_abcd_1234 19) = [''a'', ''b'']
   \<and> snd (clearExpired store_abcd_1234 19)
       = [(''c'', Str ''3''), (''__expired_storage_ts__c'', Num 25), (''d'', Str ''4'')]
   \<and> map_of (snd (clearExpired store_abcd_1234 19)) ''a'' = None
   \<and> map_of (snd (clearExpired store_abcd_1234 19)) (expiration_key_prefix @ ''a'') = None"
proof -
  have d: "distinct (storage_keys store_abcd_1234)"
    unfolding store_abcd_eq by (simp add: storage_keys_def)
  have n: "\<forall>sk \<in> set (storage_keys store_abcd_1234). indexOf_is_0 sk expiration_key_prefix \<longrightarrow>
          \<not> indexOf_is_0 (substr sk (length expiration_key_prefix)) expiration_key_prefix"
    unfolding store_abcd_eq
    by (simp add: storage_keys_def indexOf_is_0_def substr_def expiration_key_prefix_def)
  have ex: "isExpired store_abcd_1234 19 ''a''" "isExpired store_abcd_1234 19 ''b''"
    "\<not> isExpired store_abcd_1234 19 ''c''"
    by (simp_all add: isExpired_Num map_of_setItem expiration_key_prefix_def)
  have ks: "map (\<lambda>sk. substr sk (length expiration_key_prefix))
               (filter (\<lambda>sk. indexOf_is_0 sk expiration_key_prefix) (storage_keys store_abcd_1234))
      = [''a'', ''b'', ''c'']"
    unfolding store_abcd_eq
    by (simp add: storage_keys_def indexOf_is_0_def substr_def expiration_key_prefix_def)
  have r: "fst (clearExpired store_abcd_1234 19) = [''a'', ''b'']"
    using clearExpired_removes_expired [of store_abcd_1234 19] d n by (simp add: ks ex)
  have s: "snd (clearExpired store_abcd_1234 19)
      = filter (\<lambda>(x, v). x \<notin> set [''a'', ''b'']
                      \<and> x \<notin> (\<lambda>k. expiration_key_prefix @ k) ` set [''a'', ''b'']) store_abcd_1234"
    using clearExpired_removes_expired [of store_abcd_1234 19] d n unfolding r by blast
  have s': "snd (clearExpired store_abcd_1234 19)
       = [(''c'', Str ''3''), (''__expired_storage_ts__c'', Num 25), (''d'', Str ''4'')]"
    by (subst s) (simp add: store_abcd_eq expiration_key_prefix_def)
  have n': "filter (\<lambda>sk. indexOf_is_0 sk expiration_key_prefix
          \<and> indexOf_is_0 (substr sk (length expiration_key_prefix)) expiration_key_prefix)
        (storage_keys store_abcd_1234) = []"
    using n by (simp add: filter_empty_conv)
  have gone: "map_of (snd (clearExpired store_abcd_1234 19)) ''a'' = None"
    "map_of (snd (clearExpired store_abcd_1234 19)) (expiration_key_prefix @ ''a'') = None"
    unfolding s' by (simp_all add: expiration_key_prefix_def)
  show ?thesis
    using d n' r s' gone by blast
qed

section \<open>setJson and getJson\<close>

text \<open>
  C8. \<open>setJson\<close> with the value \<open>undefined\<close> throws and writes nothing: the store,
  value entry and expiry record included, is what it was. Every other value, \<open>null\<close>
  included, is accepted and handed, stringified, to \<open>setItem\<close>. When \<open>null\<close> parses
  back from its JSON text, \<open>getJson(K)\<close> after \<open>setJson(K, null)\<close> returns \<open>null\<close>.
\<close>

theorem setJson_rejects_undefined_only:
  "setJson JSON_stringify st now key Undefined expiration
     = (Inl (Error ''Cannot set undefined value as JSON!''), st)
 \<and> (val \<noteq> Undefined \<longrightarrow>
      setJson JSON_stringify st now key val expiration
        = (Inr (fst (setItem st now key (JSON_stringify val) expiration)),
           snd (setItem st now key (JSON_stringify val) expiration)))
 \<and> (JSON_parse (JSON_stringify Null) = Inr Null \<longrightarrow>
      fst (getJson JSON_parse (snd (setJson JSON_stringify st now key Null expiration)) later key)
        = Inr Null)"
proof (intro conjI impI)
  show "setJson JSON_stringify st now key Undefined expiration
     = (Inl (Error ''Cannot set undefined value as JSON!''), st)"
    by (simp add: setJson_def)
next
  assume "val \<noteq> Undefined"
  then show "setJson JSON_stringify st now key val expiration
        = (Inr (fst (setItem st now key (JSON_stringify val) expiration)),
           snd (setItem st now key (JSON_stringify val) expiration))"
    by (simp add: setJson_def split: prod.split)
next
  assume rt: "JSON_parse (JSON_stringify Null) = Inr Null"
  let ?st = "snd (setItem st now key (JSON_stringify Null) expiration)"
  have st: "snd (setJson JSON_stringify st now key Null expiration) = ?st"
    by (simp add: setJson_def split: prod.split)
  have "fst (getJson JSON_parse ?st later key) = Inr Null"
  proof (cases "isExpired ?st later key")
    case True
    then show ?thesis by (simp add: getJson_def getItem_def)
  next
    case False
    then show ?thesis
      using rt by (simp add: getJson_def getItem_def storage_getItem_after_setItem)
  qed
  then show "fst (getJson JSON_parse (snd (setJson JSON_stringify st now key Null expiration))
                   later key) = Inr Null"
    by (simp only: st)
qed

theorem setJson_rejects_undefined_only_witness:
  "Null \<noteq> Undefined
   \<and> example_parse (example_stringify Null) = Inr Null
   \<and> setJson example_stringify store_test_foo_10 3 ''test'' Undefined (Num 60)
       = (Inl (Error ''Cannot set undefined value as JSON!''), store_test_foo_10)
   \<and> setJson example_stringify [] 0 ''test'' Null Undefined
       = (Inr Undefined, [(''test'', Str ''null'')])
   \<and> fst (getJson example_parse (snd (setJson example_stringify [] 0 ''test'' Null Undefined))
        0 ''test'') = Inr Null"
proof -
  have rt: "example_parse (example_stringify Null) = Inr Null"
    by simp
  have rejected: "setJson example_stringify store_test_foo_10 3 ''test'' Undefined (Num 60)
       = (Inl (Error ''Cannot set undefined value as JSON!''), store_test_foo_10)"
    using setJson_rejects_undefined_only [where JSON_stringify = example_stringify
      and JSON_parse = example_parse and st = store_test_foo_10 and now = 3
      and key = "''test''" and expiration = "Num 60" and val = Null and later = 0]
    by blast
  have accepted: "setJson example_stringify [] 0 ''test'' Null Undefined
       = (Inr (fst (setItem [] 0 ''test'' (example_stringify Null) Undefined)),
          snd (setItem [] 0 ''test'' (example_stringify Null) Undefined))"
    and reread: "fst (getJson example_parse
        (snd (setJson example_stringify [] 0 ''test'' Null Undefined)) 0 ''test'') = Inr Null"
    using setJson_rejects_undefined_only [where JSON_stringify = example_stringify
      and JSON_parse = example_parse and st = "[]" and now = 0
      and key = "''test''" and expiration = Undefined and val = Null and later = 0] rt
    by blast+
  have written: "setJson example_stringify [] 0 ''test'' Null Undefined
       = (Inr Undefined, [(''test'', Str ''null'')])"
    unfolding accepted by (simp add: setItem_def storage_setItem_def)
  show ?thesis
    using rt rejected written reread by blast
qed

text \<open>
  C9. Let \<open>val\<close> be JSON-serializable: it is not \<open>undefined\<close>, \<open>JSON.stringify\<close>
  gives a text for it and \<open>JSON.parse\<close> of that text gives \<open>val\<close> back. Then for
  every key and every expiration, \<open>getJson(K)\<close> after \<open>setJson(K, val, expiration)\<close>,
  at any time at which the entry is not expired, returns \<open>val\<close> and evicts nothing.
\<close>

theorem getJson_after_setJson_roundtrip:
  "val \<noteq> Undefined
   \<and> JSON_stringify val = Str json
   \<and> JSON_parse (Str json) = Inr val
   \<and> \<not> isExpired (snd (setJson JSON_stringify st now key val expiration)) later key \<longrightarrow>
     getJson JSON_parse (snd (setJson JSON_stringify st now key val expiration)) later key
       = (Inr val, snd (setJson JSON_stringify st now key val expiration))"
proof (intro impI)
  assume h: "val \<noteq> Undefined
   \<and> JSON_stringify val = Str json
   \<and> JSON_parse (Str json) = Inr val
   \<and> \<not> isExpired (snd (setJson JSON_stringify st now key val expiration)) later key"
  let ?st = "snd (setItem st now key (Str json) expiration)"
  have st: "snd (setJson JSON_stringify st now key val expiration) = ?st"
    using h by (simp add: setJson_def split: prod.split)
  have live: "\<not> isExpired ?st later key"
    using h st by simp
  have "getJson JSON_parse ?st later key = (Inr val, ?st)"
    using h live by (simp add: getJson_def getItem_def storage_getItem_after_setItem)
  then show "getJson JSON_parse (snd (setJson JSON_stringify st now key val expiration)) later key
       = (Inr val, snd (setJson JSON_stringify st now key val expiration))"
    by (simp only: st)
qed

theorem getJson_after_setJson_roundtrip_witness:
  "Num 5 \<noteq> Undefined
   \<and> example_stringify (Num 5) = Str ''5''
   \<and> example_parse (Str ''5'') = Inr (Num 5)
   \<and> \<not> isExpired (snd (setJson example_stringify [] 0 ''n'' (Num 5) (Num 10))) 3 ''n''
   \<and> getJson example_parse (snd (setJson example_stringify [] 0 ''n'' (Num 5) (Num 10))) 3 ''n''
       = (Inr (Num 5), [(''n'', Str ''5''), (''__expired_storage_ts__n'', Num 10)])"
proof -
  have s: "example_stringify (Num 5) = Str ''5''"
    by code_simp
  have p: "example_parse (Str ''5'') = Inr (Num 5)"
    by code_simp
  have st: "snd (setJson example_stringify [] 0 ''n'' (Num 5) (Num 10))
      = [(''n'', Str ''5''), (''__expired_storage_ts__n'', Num 10)]"
    using s by (simp add: setJson_def setItem_def storage_setItem_def updateExpiration_def
        expiration_key_prefix_def)
  have live: "\<not> isExpired (snd (setJson example_stringify [] 0 ''n'' (Num 5) (Num 10))) 3 ''n''"
    unfolding st by (simp add: isExpired_iff getTimeLeft_Num expiration_key_prefix_def)
  show ?thesis
    using getJson_after_setJson_roundtrip [where val = "Num 5"
        and JSON_stringify = example_stringify and json = "''5''"
        and JSON_parse = example_parse
        and st = "[]" and now = 0 and key = "''n''" and expiration = "Num 10" and later = 3]
      s p live st
    by simp
qed

end
